theory Spec2Isabelle
  imports Main
begin

section \<open>TestOrganizer: the module structure checker of testorganizer.py\<close>

text \<open>
  The program probes the filesystem through three calls only: \<open>os.path.exists\<close>,
  \<open>os.path.isdir\<close> and \<open>os.listdir\<close>. A filesystem state is therefore the
  answers to those calls on path strings. The first two never raise on a string;
  \<open>os.listdir\<close> raises an \<open>OSError\<close> (the path is missing, is not a directory, or
  may not be read), which is the answer \<open>None\<close>. No relation between the three
  answers is assumed. A string is the UTF-8 text of a Python \<open>str\<close>; paths are POSIX
  paths.
\<close>

record filesystem =
  path_exists :: "string \<Rightarrow> bool"
  path_isdir :: "string \<Rightarrow> bool"
  listdir :: "string \<Rightarrow> string list option"

datatype py_error = OSError | TypeError

text \<open>The values a params mapping holds: Python's \<open>None\<close>, booleans, integers and strings.\<close>

datatype pyval = PNone | PBool bool | PInt int | PStr string

text \<open>The dictionary built by \<open>check_module_structure\<close>, with its six fixed keys.\<close>

record module_result =
  module :: string
  exists :: bool
  has_tool_py :: bool
  has_tool_yaml :: bool
  has_legacy_module :: bool
  is_complete :: bool

text \<open>
  The dictionary returned by \<open>run\<close>. The keys \<open>status\<close>, \<open>message\<close> and
  \<open>module\<close> (here \<open>resp_module\<close>, the name \<open>module\<close> being taken by the result
  record) are in every response; \<open>result\<close> and \<open>modules\<close> are \<open>None\<close> where the
  response has no such key.
\<close>

record response =
  status :: string
  message :: string
  resp_module :: string
  result :: "module_result option"
  modules :: "module_result list option"

subsection \<open>String helpers of the Python runtime\<close>

text \<open>\<open>s.startswith(p)\<close>.\<close>

definition startswith :: "string \<Rightarrow> string \<Rightarrow> bool" where
  "startswith s p = (take (length p) s = p)"

text \<open>\<open>s.endswith(p)\<close>.\<close>

definition endswith :: "string \<Rightarrow> string \<Rightarrow> bool" where
  "endswith s p = (drop (length s - length p) s = p \<and> length p \<le> length s)"

text \<open>
  \<open>s.lower()\<close> follows the Unicode case tables of the interpreter, which are not part
  of this program: the functions below take it as the parameter \<open>lower\<close>, and what is
  proved holds for every such function. \<open>ascii_lower\<close> is \<open>s.lower()\<close> on ASCII text
  (the letters A to Z are mapped, all else is kept); it is the instance used on the
  concrete inputs, whose names are ASCII.
\<close>

definition ascii_lower_char :: "char \<Rightarrow> char" where
  "ascii_lower_char c =
     (case map_of (zip ''ABCDEFGHIJKLMNOPQRSTUVWXYZ'' ''abcdefghijklmnopqrstuvwxyz'') c of
        None \<Rightarrow> c
      | Some d \<Rightarrow> d)"

definition ascii_lower :: "string \<Rightarrow> string" where
  "ascii_lower s = map ascii_lower_char s"

text \<open>\<open>os.path.join(a, b)\<close> of posixpath, for two strings.\<close>

definition path_join :: "string \<Rightarrow> string \<Rightarrow> string" where
  "path_join a b =
     (if startswith b ''/'' then b
      else if a = [] \<or> endswith a ''/'' then a @ b
      else a @ ''/'' @ b)"

text \<open>\<open>str(n)\<close> for a natural number and for an integer: decimal digits.\<close>

definition digit_char :: "nat \<Rightarrow> char" where
  "digit_char d = ''0123456789'' ! d"

function str_nat :: "nat \<Rightarrow> string" where
  "str_nat n = (if n < 10 then [digit_char n] else str_nat (n div 10) @ [digit_char (n mod 10)])"
  by pat_completeness auto
termination
  by (relation "measure (\<lambda>n. n)") auto

declare str_nat.simps [simp del]

definition str_int :: "int \<Rightarrow> string" where
  "str_int i = (if i < 0 then ''-'' @ str_nat (nat (- i)) else str_nat (nat i))"

text \<open>What an f-string writes for a value: \<open>str(v)\<close>.\<close>

fun py_str :: "pyval \<Rightarrow> string" where
  "py_str PNone = ''None''"
| "py_str (PBool b) = (if b then ''True'' else ''False'')"
| "py_str (PInt i) = str_int i"
| "py_str (PStr s) = s"

text \<open>Python's truth value of a value, as \<open>not module_name\<close> tests it.\<close>

fun truthy :: "pyval \<Rightarrow> bool" where
  "truthy PNone = False"
| "truthy (PBool b) = b"
| "truthy (PInt i) = (i \<noteq> 0)"
| "truthy (PStr s) = (s \<noteq> [])"

subsection \<open>check_module_structure\<close>

text \<open>The two paths the function probes.\<close>

definition module_dir :: "string \<Rightarrow> string" where
  "module_dir module_name = path_join ''modules'' module_name"

definition legacy_path :: "(string \<Rightarrow> string) \<Rightarrow> string \<Rightarrow> string" where
  "legacy_path lower module_name = ''modules/'' @ lower module_name @ ''.py''"

text \<open>
  The dictionary starts with every flag false; the flags are then assigned in the
  order of the source, and \<open>is_complete\<close> is computed last from the stored flags.
\<close>

definition check_module_structure :: "(string \<Rightarrow> string) \<Rightarrow> filesystem \<Rightarrow> string \<Rightarrow> module_result" where
  "check_module_structure lower fs module_name =
     (let results = \<lparr>module = module_name, exists = False, has_tool_py = False,
                      has_tool_yaml = False, has_legacy_module = False, is_complete = False\<rparr>;
          results =
            (if path_exists fs (module_dir module_name) \<and> path_isdir fs (module_dir module_name)
             then results\<lparr>exists := True,
                          has_tool_py := path_exists fs (path_join (module_dir module_name) ''tool.py''),
                          has_tool_yaml := path_exists fs (path_join (module_dir module_name) ''tool.yaml'')\<rparr>
             else results);
          results = results\<lparr>has_legacy_module := path_exists fs (legacy_path lower module_name)\<rparr>
      in results\<lparr>is_complete := exists results \<and> has_tool_py results \<and> has_tool_yaml results\<rparr>)"

subsection \<open>list_all_modules\<close>

text \<open>The loop over the directory listing, appending to the list \<open>modules\<close> (here \<open>mods\<close>).\<close>

fun scan_items ::
  "(string \<Rightarrow> string) \<Rightarrow> filesystem \<Rightarrow> string list \<Rightarrow> module_result list
     \<Rightarrow> module_result list" where
  "scan_items lower fs [] mods = mods"
| "scan_items lower fs (item # items) mods =
     (if path_isdir fs (path_join ''modules'' item) \<and> \<not> startswith item ''.''
      then scan_items lower fs items (mods @ [check_module_structure lower fs item])
      else scan_items lower fs items mods)"

definition list_all_modules :: "(string \<Rightarrow> string) \<Rightarrow> filesystem \<Rightarrow> py_error + module_result list" where
  "list_all_modules lower fs =
     (if \<not> path_exists fs ''modules'' then Inr []
      else case listdir fs ''modules'' of
             None \<Rightarrow> Inl OSError
           | Some items \<Rightarrow> Inr (scan_items lower fs items []))"

subsection \<open>run\<close>

text \<open>\<open>params.get(key, default)\<close>.\<close>

definition dict_get :: "(string \<rightharpoonup> pyval) \<Rightarrow> string \<Rightarrow> pyval \<Rightarrow> pyval" where
  "dict_get params k d = (case params k of None \<Rightarrow> d | Some v \<Rightarrow> v)"

text \<open>\<open>sum(1 for m in modules if m["is_complete"])\<close>.\<close>

definition complete_count :: "module_result list \<Rightarrow> int" where
  "complete_count ms = int (length (filter is_complete ms))"

text \<open>
  The dispatcher. A module name that is true but not a string makes
  \<open>os.path.join\<close> raise a \<open>TypeError\<close>; an \<open>OSError\<close> of the listing is not caught.
\<close>

definition run ::
  "(string \<Rightarrow> string) \<Rightarrow> filesystem \<Rightarrow> (string \<rightharpoonup> pyval) \<Rightarrow> py_error + response" where
  "run lower fs params =
     (let operation = dict_get params ''operation'' (PStr ''list'') in
      if operation = PStr ''check'' then
        (let module_name = dict_get params ''module_name'' PNone in
         if \<not> truthy module_name then
           Inr \<lparr>status = ''error'',
                message = ''Missing module_name parameter for check operation'',
                resp_module = ''TestOrganizer'', result = None, modules = None\<rparr>
         else
           (case module_name of
              PStr name \<Rightarrow>
                (let res = check_module_structure lower fs name in
                 Inr \<lparr>status = (if is_complete res then ''complete'' else ''incomplete''),
                      message = ''Module structure check completed for '' @ name,
                      resp_module = ''TestOrganizer'', result = Some res, modules = None\<rparr>)
            | _ \<Rightarrow> Inl TypeError))
      else if operation = PStr ''list'' then
        (case list_all_modules lower fs of
           Inl e \<Rightarrow> Inl e
         | Inr ms \<Rightarrow>
             (let n = int (length ms); c = complete_count ms; i = n - c in
              Inr \<lparr>status = ''success'',
                   message = ''Found '' @ str_int n @ '' modules ('' @ str_int c
                             @ '' complete, '' @ str_int i @ '' incomplete)'',
                   resp_module = ''TestOrganizer'', result = None, modules = Some ms\<rparr>))
      else
        Inr \<lparr>status = ''error'', message = ''Unknown operation: '' @ py_str operation,
             resp_module = ''TestOrganizer'', result = None, modules = None\<rparr>)"

subsection \<open>Filesystem states used as concrete inputs\<close>

text \<open>
  \<open>fs_demo\<close>: a root \<open>modules\<close> with a complete module \<open>foo\<close>, a module \<open>bar\<close> that
  has only \<open>tool.py\<close>, a legacy file \<open>baz.py\<close> and a hidden directory \<open>.git\<close> that
  holds both tool files. \<open>fs_bare\<close>: nothing exists.
\<close>

definition fs_demo :: filesystem where
  "fs_demo =
     \<lparr>path_exists = (\<lambda>p. p \<in> set [''modules'', ''modules/foo'', ''modules/foo/tool.py'',
                                   ''modules/foo/tool.yaml'', ''modules/bar'',
                                   ''modules/bar/tool.py'', ''modules/baz.py'',
                                   ''modules/.git'', ''modules/.git/tool.py'',
                                   ''modules/.git/tool.yaml'']),
      path_isdir = (\<lambda>p. p \<in> set [''modules'', ''modules/foo'', ''modules/bar'', ''modules/.git'']),
      listdir = (\<lambda>p. if p = ''modules'' then Some [''foo'', ''.git'', ''baz.py'', ''bar'']
                     else None)\<rparr>"

definition fs_bare :: filesystem where
  "fs_bare = \<lparr>path_exists = (\<lambda>p. False), path_isdir = (\<lambda>p. False), listdir = (\<lambda>p. None)\<rparr>"

text \<open>
  \<open>fs_abs\<close>: a directory \<open>/tmp\<close> outside the root that holds both tool files, and
  under \<open>modules\<close> only the file \<open>tmp.py\<close>, which the paths \<open>modules/tmp.py\<close> and
  \<open>modules//tmp.py\<close> both name.
\<close>

definition fs_abs :: filesystem where
  "fs_abs =
     \<lparr>path_exists = (\<lambda>p. p \<in> set [''/tmp'', ''/tmp/tool.py'', ''/tmp/tool.yaml'', ''modules'',
                                   ''modules/tmp.py'', ''modules//tmp.py'']),
      path_isdir = (\<lambda>p. p \<in> set [''/tmp'', ''modules'']),
      listdir = (\<lambda>p. if p = ''modules'' then Some [''tmp.py'']
                     else if p = ''/tmp'' then Some [''tool.py'', ''tool.yaml'']
                     else None)\<rparr>"

section \<open>Properties\<close>

lemmas path_defs = path_join_def startswith_def endswith_def module_dir_def legacy_path_def
  ascii_lower_def ascii_lower_char_def

lemmas str_defs = str_int_def str_nat.simps digit_char_def

subsection \<open>Helper facts\<close>

text \<open>Each key of the result, in terms of the probes.\<close>

lemma check_fields [simp]:
  "module (check_module_structure lower fs m) = m"
  "exists (check_module_structure lower fs m) =
     (path_exists fs (module_dir m) \<and> path_isdir fs (module_dir m))"
  "has_tool_py (check_module_structure lower fs m) =
     (path_exists fs (module_dir m) \<and> path_isdir fs (module_dir m)
      \<and> path_exists fs (path_join (module_dir m) ''tool.py''))"
  "has_tool_yaml (check_module_structure lower fs m) =
     (path_exists fs (module_dir m) \<and> path_isdir fs (module_dir m)
      \<and> path_exists fs (path_join (module_dir m) ''tool.yaml''))"
  "has_legacy_module (check_module_structure lower fs m) = path_exists fs (legacy_path lower m)"
  "is_complete (check_module_structure lower fs m) =
     (path_exists fs (module_dir m) \<and> path_isdir fs (module_dir m)
      \<and> path_exists fs (path_join (module_dir m) ''tool.py'')
      \<and> path_exists fs (path_join (module_dir m) ''tool.yaml''))"
  by (auto simp add: check_module_structure_def Let_def)

text \<open>For a name that does not start with a slash the module directory is \<open>modules/<name>\<close>.\<close>

lemma module_dir_relative:
  "\<not> startswith m ''/'' \<Longrightarrow> module_dir m = ''modules/'' @ m"
  by (simp add: module_dir_def path_join_def endswith_def)

text \<open>The loop appends the checks of the entries it keeps, in listing order.\<close>

lemma scan_items_eq:
  "scan_items lower fs items mods =
     mods @ map (check_module_structure lower fs)
              (filter (\<lambda>item. path_isdir fs (path_join ''modules'' item) \<and> \<not> startswith item ''.'')
                 items)"
  by (induction items arbitrary: mods) simp_all

lemma list_all_modules_eq:
  assumes "path_exists fs ''modules''" and "listdir fs ''modules'' = Some items"
  shows "list_all_modules lower fs =
     Inr (map (check_module_structure lower fs)
            (filter (\<lambda>item. path_isdir fs (path_join ''modules'' item) \<and> \<not> startswith item ''.'')
               items))"
  using assms by (simp add: list_all_modules_def scan_items_eq)

text \<open>The two counts of the list message add up to the number of modules.\<close>

lemma complete_count_bounds:
  "0 \<le> complete_count ms \<and> complete_count ms \<le> int (length ms)"
  by (simp add: complete_count_def)

subsection \<open>C1: is_complete is the conjunction of the three flags\<close>

text \<open>
  C1. For every filesystem state and every module name, the \<open>is_complete\<close> entry of the
  result of \<open>check_module_structure\<close> equals the conjunction of the entries \<open>exists\<close>,
  \<open>has_tool_py\<close> and \<open>has_tool_yaml\<close> of that same result.
\<close>

theorem check_module_is_complete:
  "is_complete (check_module_structure lower fs m) =
     (exists (check_module_structure lower fs m) \<and> has_tool_py (check_module_structure lower fs m)
      \<and> has_tool_yaml (check_module_structure lower fs m))"
  by (simp add: check_module_structure_def Let_def)

theorem check_module_is_complete_witness:
  "is_complete (check_module_structure ascii_lower fs_demo ''foo'')
   \<and> \<not> is_complete (check_module_structure ascii_lower fs_demo ''bar'')"
  using check_module_is_complete [of ascii_lower fs_demo "''foo''"]
    check_module_is_complete [of ascii_lower fs_demo "''bar''"]
  by (simp add: fs_demo_def path_defs)

subsection \<open>C2: unknown operations\<close>




subsection \<open>C3: a missing modules root\<close>

text \<open>
  C3. When the path \<open>modules\<close> does not exist, \<open>list_all_modules\<close> returns the empty
  list without raising, and \<open>run\<close> with \<open>operation = "list"\<close> returns status
  \<open>"success"\<close>, an empty \<open>modules\<close> list and the message
  \<open>"Found 0 modules (0 complete, 0 incomplete)"\<close>.
\<close>

theorem list_missing_root:
  assumes "\<not> path_exists fs ''modules''"
  shows "list_all_modules lower fs = Inr []
    \<and> (params ''operation'' = Some (PStr ''list'') \<longrightarrow>
         run lower fs params =
           Inr \<lparr>status = ''success'', message = ''Found 0 modules (0 complete, 0 incomplete)'',
                resp_module = ''TestOrganizer'', result = None, modules = Some []\<rparr>)"
  using assms
  by (simp add: list_all_modules_def run_def dict_get_def complete_count_def str_defs)

theorem list_missing_root_witness:
  "\<not> path_exists fs_bare ''modules'' \<and> list_all_modules ascii_lower fs_bare = Inr []
   \<and> run ascii_lower fs_bare [''operation'' \<mapsto> PStr ''list''] =
       Inr \<lparr>status = ''success'', message = ''Found 0 modules (0 complete, 0 incomplete)'',
            resp_module = ''TestOrganizer'', result = None, modules = Some []\<rparr>"
proof -
  have absent: "\<not> path_exists fs_bare ''modules''"
    by (simp add: fs_bare_def)
  show ?thesis
    using absent list_missing_root [OF absent, of ascii_lower "[''operation'' \<mapsto> PStr ''list'']"]
    by simp
qed

subsection \<open>C4: hidden entries and non-directories are not listed\<close>

text \<open>
  C4. Whenever \<open>list_all_modules\<close> returns a list, every element of it is the
  \<open>check_module_structure\<close> result of an entry of the listing of \<open>modules\<close> that is a
  directory and whose name does not start with a dot; and no entry name that starts
  with a dot or is not a directory is the \<open>module\<close> of an element, whatever else the
  filesystem holds under it.
\<close>

theorem list_all_modules_entries:
  assumes "list_all_modules lower fs = Inr ms"
  shows "(\<forall>r \<in> set ms. \<exists>items item. listdir fs ''modules'' = Some items \<and> item \<in> set items
            \<and> path_isdir fs (path_join ''modules'' item) \<and> \<not> startswith item ''.''
            \<and> r = check_module_structure lower fs item)
    \<and> (\<forall>item. startswith item ''.'' \<or> \<not> path_isdir fs (path_join ''modules'' item)
            \<longrightarrow> item \<notin> module ` set ms)"
proof (cases "path_exists fs ''modules''")
  case False
  with assms have "ms = []"
    by (simp add: list_all_modules_def)
  then show ?thesis by simp
next
  case True
  with assms obtain items where items: "listdir fs ''modules'' = Some items"
    by (auto simp add: list_all_modules_def split: option.splits)
  from assms list_all_modules_eq [OF True items]
  have ms: "ms = map (check_module_structure lower fs)
      (filter (\<lambda>item. path_isdir fs (path_join ''modules'' item) \<and> \<not> startswith item ''.'') items)"
    by simp
  show ?thesis
    unfolding ms using items by auto
qed

theorem list_all_modules_entries_witness:
  "list_all_modules ascii_lower fs_demo =
     Inr [check_module_structure ascii_lower fs_demo ''foo'', check_module_structure ascii_lower fs_demo ''bar'']
   \<and> ''.git'' \<notin> module ` set [check_module_structure ascii_lower fs_demo ''foo'',
                               check_module_structure ascii_lower fs_demo ''bar'']
   \<and> ''baz.py'' \<notin> module ` set [check_module_structure ascii_lower fs_demo ''foo'',
                                 check_module_structure ascii_lower fs_demo ''bar'']"
proof -
  have listed: "list_all_modules ascii_lower fs_demo =
      Inr [check_module_structure ascii_lower fs_demo ''foo'', check_module_structure ascii_lower fs_demo ''bar'']"
    by (simp add: list_all_modules_def fs_demo_def path_defs)
  show ?thesis
    using listed list_all_modules_entries [OF listed] by simp
qed

subsection \<open>C5: the legacy file is probed independently of the directory\<close>

text \<open>
  C5 as stated speaks of every module name and of the directory \<open>modules/m\<close>. The
  directory the code probes is \<open>os.path.join("modules", m)\<close>, which for a name that
  starts with a slash is the name itself. In \<open>fs_abs\<close> there is no directory
  \<open>modules//tmp\<close> and the legacy path of the name \<open>/tmp\<close> exists, yet the result for
  \<open>/tmp\<close> has \<open>exists\<close> and \<open>is_complete\<close> true.
\<close>

theorem legacy_absolute_name_counterexample:
  "\<not> path_exists fs_abs (''modules/'' @ ''/tmp'')
   \<and> \<not> path_isdir fs_abs (''modules/'' @ ''/tmp'')
   \<and> path_exists fs_abs (''modules/'' @ ascii_lower ''/tmp'' @ ''.py'')
   \<and> has_legacy_module (check_module_structure ascii_lower fs_abs ''/tmp'')
   \<and> exists (check_module_structure ascii_lower fs_abs ''/tmp'')
   \<and> is_complete (check_module_structure ascii_lower fs_abs ''/tmp'')"
  by (simp add: check_module_structure_def fs_abs_def path_defs)

text \<open>
  C5, amended. For every module name, \<open>has_legacy_module\<close> is true iff the path
  \<open>modules/<name lowercased>.py\<close> exists, whether or not the module directory
  exists. For every name that does not start with a slash: when no directory
  \<open>modules/<name>\<close> exists and the legacy path exists, the result has
  \<open>has_legacy_module\<close> true, \<open>exists\<close> false and \<open>is_complete\<close> false.
\<close>

theorem legacy_independent:
  "has_legacy_module (check_module_structure lower fs m)
     = path_exists fs (''modules/'' @ lower m @ ''.py'')
   \<and> (\<not> startswith m ''/''
        \<and> \<not> (path_exists fs (''modules/'' @ m) \<and> path_isdir fs (''modules/'' @ m))
        \<and> path_exists fs (''modules/'' @ lower m @ ''.py'') \<longrightarrow>
      has_legacy_module (check_module_structure lower fs m)
      \<and> \<not> exists (check_module_structure lower fs m)
      \<and> \<not> is_complete (check_module_structure lower fs m))"
proof (cases "startswith m ''/''")
  case True
  then show ?thesis
    by (simp add: legacy_path_def)
next
  case False
  then have dir: "module_dir m = ''modules/'' @ m"
    by (rule module_dir_relative)
  show ?thesis
    by (auto simp add: legacy_path_def dir)
qed

theorem legacy_independent_witness:
  "\<not> startswith ''Baz'' ''/''
   \<and> ''modules/'' @ ascii_lower ''Baz'' @ ''.py'' = ''modules/baz.py''
   \<and> \<not> path_exists fs_demo ''modules/Baz'' \<and> path_exists fs_demo ''modules/baz.py''
   \<and> has_legacy_module (check_module_structure ascii_lower fs_demo ''Baz'')
   \<and> \<not> exists (check_module_structure ascii_lower fs_demo ''Baz'')
   \<and> \<not> is_complete (check_module_structure ascii_lower fs_demo ''Baz'')"
proof -
  have name: "\<not> startswith ''Baz'' ''/''"
    by (simp add: startswith_def)
  have paths: "''modules/'' @ ascii_lower ''Baz'' @ ''.py'' = ''modules/baz.py''"
    by (simp add: path_defs)
  have probes: "\<not> path_exists fs_demo ''modules/Baz''" "path_exists fs_demo ''modules/baz.py''"
    by (simp_all add: fs_demo_def)
  show ?thesis
    using name paths probes legacy_independent [of ascii_lower fs_demo "''Baz''"] by simp
qed

subsection \<open>C6: check without module_name\<close>

text \<open>
  C6. With \<open>operation = "check"\<close> and no \<open>module_name\<close> key, \<open>run\<close> returns (it does
  not raise) the response with status \<open>"error"\<close> and the message
  \<open>"Missing module_name parameter for check operation"\<close>.
\<close>

theorem check_missing_module_name:
  assumes "params ''operation'' = Some (PStr ''check'')" and "params ''module_name'' = None"
  shows "run lower fs params =
     Inr \<lparr>status = ''error'', message = ''Missing module_name parameter for check operation'',
          resp_module = ''TestOrganizer'', result = None, modules = None\<rparr>"
  using assms by (simp add: run_def dict_get_def)

theorem check_missing_module_name_witness:
  "run ascii_lower fs_demo [''operation'' \<mapsto> PStr ''check''] =
     Inr \<lparr>status = ''error'', message = ''Missing module_name parameter for check operation'',
          resp_module = ''TestOrganizer'', result = None, modules = None\<rparr>"
  using check_missing_module_name [of "[''operation'' \<mapsto> PStr ''check'']" ascii_lower fs_demo]
  by simp

subsection \<open>C7: the status of a check mirrors is_complete\<close>

text \<open>
  C7. With \<open>operation = "check"\<close> and a non-empty string as \<open>module_name\<close>, \<open>run\<close>
  returns a response whose status is \<open>"complete"\<close> if the result of
  \<open>check_module_structure\<close> has \<open>is_complete\<close> true and \<open>"incomplete"\<close> otherwise, whose
  message ends with the module name, and whose \<open>result\<close> key holds that whole result.
\<close>

theorem check_status_mirrors:
  assumes "params ''operation'' = Some (PStr ''check'')"
    and "params ''module_name'' = Some (PStr name)" and "name \<noteq> []"
  shows "run lower fs params =
     Inr \<lparr>status = (if is_complete (check_module_structure lower fs name) then ''complete''
                    else ''incomplete''),
          message = ''Module structure check completed for '' @ name,
          resp_module = ''TestOrganizer'',
          result = Some (check_module_structure lower fs name), modules = None\<rparr>"
  using assms by (simp add: run_def dict_get_def Let_def)

theorem check_status_mirrors_witness:
  "run ascii_lower fs_demo [''operation'' \<mapsto> PStr ''check'', ''module_name'' \<mapsto> PStr ''bar''] =
     Inr \<lparr>status = ''incomplete'', message = ''Module structure check completed for bar'',
          resp_module = ''TestOrganizer'',
          result = Some \<lparr>module = ''bar'', exists = True, has_tool_py = True,
                          has_tool_yaml = False, has_legacy_module = False,
                          is_complete = False\<rparr>,
          modules = None\<rparr>
   \<and> run ascii_lower fs_demo [''operation'' \<mapsto> PStr ''check'', ''module_name'' \<mapsto> PStr ''foo''] =
     Inr \<lparr>status = ''complete'', message = ''Module structure check completed for foo'',
          resp_module = ''TestOrganizer'',
          result = Some \<lparr>module = ''foo'', exists = True, has_tool_py = True,
                          has_tool_yaml = True, has_legacy_module = False,
                          is_complete = True\<rparr>,
          modules = None\<rparr>"
  using
    check_status_mirrors [of "[''operation'' \<mapsto> PStr ''check'', ''module_name'' \<mapsto> PStr ''bar'']"
      "''bar''" ascii_lower fs_demo]
    check_status_mirrors [of "[''operation'' \<mapsto> PStr ''check'', ''module_name'' \<mapsto> PStr ''foo'']"
      "''foo''" ascii_lower fs_demo]
  by (simp add: check_module_structure_def fs_demo_def path_defs)

subsection \<open>C8: the identity tag\<close>

text \<open>
  C8. Every response that \<open>run\<close> returns, for every params mapping and every
  filesystem state, has the value \<open>"TestOrganizer"\<close> under the key \<open>module\<close>.
\<close>

theorem response_identity_tag:
  assumes "run lower fs params = Inr r"
  shows "resp_module r = ''TestOrganizer''"
  using assms
  by (auto simp add: run_def Let_def split: if_splits pyval.splits sum.splits)

theorem response_identity_tag_witness:
  "run ascii_lower fs_demo [''operation'' \<mapsto> PInt 7] =
     Inr \<lparr>status = ''error'', message = ''Unknown operation: 7'',
          resp_module = ''TestOrganizer'', result = None, modules = None\<rparr>
   \<and> resp_module \<lparr>status = ''error'', message = ''Unknown operation: 7'',
          resp_module = ''TestOrganizer'', result = None, modules = None\<rparr> = ''TestOrganizer''"
proof -
  have returned: "run ascii_lower fs_demo [''operation'' \<mapsto> PInt 7] =
     Inr \<lparr>status = ''error'', message = ''Unknown operation: 7'',
          resp_module = ''TestOrganizer'', result = None, modules = None\<rparr>"
    by (simp add: run_def dict_get_def str_defs)
  show ?thesis
    using returned response_identity_tag [OF returned] by simp
qed

subsection \<open>C9: list ignores module_name\<close>

text \<open>
  C9. With \<open>operation = "list"\<close>, setting, changing or removing the \<open>module_name\<close> key
  of the params mapping does not change what \<open>run\<close> returns on the same filesystem
  state.
\<close>

theorem list_ignores_module_name:
  assumes "params ''operation'' = Some (PStr ''list'')"
  shows "run lower fs (params(''module_name'' := v)) = run lower fs params"
  using assms by (simp add: run_def dict_get_def)

theorem list_ignores_module_name_witness:
  "run ascii_lower fs_demo [''operation'' \<mapsto> PStr ''list'', ''module_name'' \<mapsto> PStr ''foo'']
     = run ascii_lower fs_demo [''operation'' \<mapsto> PStr ''list'']"
  using list_ignores_module_name
    [of "[''operation'' \<mapsto> PStr ''list'']" ascii_lower fs_demo "Some (PStr ''foo'')"]
  by simp

subsection \<open>C10: an empty module_name counts as missing\<close>

text \<open>
  C10. With \<open>operation = "check"\<close> and \<open>module_name\<close> present but the empty string,
  \<open>run\<close> returns the error response for the missing parameter, the same response as
  with \<open>module_name\<close> absent.
\<close>

theorem check_empty_module_name:
  assumes "params ''operation'' = Some (PStr ''check'')"
    and "params ''module_name'' = Some (PStr [])"
  shows "run lower fs params =
     Inr \<lparr>status = ''error'', message = ''Missing module_name parameter for check operation'',
          resp_module = ''TestOrganizer'', result = None, modules = None\<rparr>
    \<and> run lower fs params = run lower fs (params(''module_name'' := None))"
  using assms by (simp add: run_def dict_get_def)

theorem check_empty_module_name_witness:
  "run ascii_lower fs_demo [''operation'' \<mapsto> PStr ''check'', ''module_name'' \<mapsto> PStr []] =
     Inr \<lparr>status = ''error'', message = ''Missing module_name parameter for check operation'',
          resp_module = ''TestOrganizer'', result = None, modules = None\<rparr>"
  using check_empty_module_name
    [of "[''operation'' \<mapsto> PStr ''check'', ''module_name'' \<mapsto> PStr []]" ascii_lower
      fs_demo]
  by simp

end
